theory Spec2Isabelle
  imports Main "HOL-Library.Monad_Syntax"
begin

section \<open>Python string operations used by \<open>isort/api.py\<close>\<close>

text \<open>
  Python strings are modelled as \<open>string\<close>; a character is a code point below 256.
  \<open>str.strip\<close>, \<open>str.lstrip\<close> and \<open>str.isspace\<close> treat the following code points
  below 256 as whitespace.
\<close>

definition is_space :: "char \<Rightarrow> bool" where
  "is_space c = (c \<in> set [CHR 0x09, CHR 0x0A, CHR 0x0B, CHR 0x0C, CHR 0x0D,
                           CHR 0x1C, CHR 0x1D, CHR 0x1E, CHR 0x1F, CHR 0x20,
                           CHR 0x85, CHR 0xA0])"

definition lstrip :: "string \<Rightarrow> string" where
  "lstrip s = dropWhile is_space s"

definition rstrip :: "string \<Rightarrow> string" where
  "rstrip s = rev (dropWhile is_space (rev s))"

definition strip :: "string \<Rightarrow> string" where
  "strip s = rstrip (lstrip s)"

text \<open>\<open>s.lstrip(chars)\<close>: the argument is a set of characters, not a prefix.\<close>

definition lstrip_chars :: "string \<Rightarrow> string \<Rightarrow> string" where
  "lstrip_chars s chars = dropWhile (\<lambda>c. c \<in> set chars) s"

definition startswith :: "string \<Rightarrow> string \<Rightarrow> bool" where
  "startswith s p = (take (length p) s = p)"

text \<open>\<open>s.startswith(tuple)\<close>\<close>

definition startswith_any :: "string \<Rightarrow> string list \<Rightarrow> bool" where
  "startswith_any s ps = list_ex (startswith s) ps"

definition endswith :: "string \<Rightarrow> string \<Rightarrow> bool" where
  "endswith s p = (length p \<le> length s \<and> drop (length s - length p) s = p)"

text \<open>\<open>sub in s\<close> for strings: \<open>sub\<close> occurs as a contiguous substring.\<close>

fun str_in :: "string \<Rightarrow> string \<Rightarrow> bool" where
  "str_in sub [] = (sub = [])"
| "str_in sub (c # cs) = (startswith (c # cs) sub \<or> str_in sub cs)"

text \<open>\<open>s.split("#")[0]\<close>: the text before the first \<open>#\<close>.\<close>

definition split_hash_0 :: "string \<Rightarrow> string" where
  "split_hash_0 s = takeWhile (\<lambda>c. c \<noteq> CHR ''#'') s"

text \<open>
  \<open>s.split(sep)\<close> for a non-empty separator. Python raises \<open>ValueError\<close> on an empty
  separator; the engine only splits on \<open>line_separator\<close> inside a flush, where it is
  never empty (it is set on the first loop iteration), and the model returns \<open>[s]\<close> there.
\<close>

function split_acc :: "string \<Rightarrow> string \<Rightarrow> string \<Rightarrow> string list" where
  "split_acc sep acc s =
     (if s = [] then [acc]
      else if sep \<noteq> [] \<and> startswith s sep then acc # split_acc sep [] (drop (length sep) s)
      else split_acc sep (acc @ [hd s]) (tl s))"
  by pat_completeness auto
termination
  by (relation "measure (\<lambda>(sep, acc, s). length s)") auto

declare split_acc.simps [simp del]

definition split :: "string \<Rightarrow> string \<Rightarrow> string list" where
  "split s sep = split_acc sep [] s"

text \<open>\<open>sep.join(xs)\<close>\<close>

fun join :: "string \<Rightarrow> string list \<Rightarrow> string" where
  "join sep [] = []"
| "join sep [x] = x"
| "join sep (x # y # ys) = x @ sep @ join sep (y # ys)"

text \<open>
  \<open>s.splitlines(True)\<close>: split at every line boundary, keeping the boundary; \<open>\r\n\<close> is
  one boundary.
\<close>

definition is_linebreak :: "char \<Rightarrow> bool" where
  "is_linebreak c = (c \<in> set [CHR 0x0A, CHR 0x0B, CHR 0x0C, CHR 0x0D,
                               CHR 0x1C, CHR 0x1D, CHR 0x1E, CHR 0x85])"

fun splitlines_acc :: "string \<Rightarrow> string \<Rightarrow> string list" where
  "splitlines_acc acc [] = (if acc = [] then [] else [acc])"
| "splitlines_acc acc [c] = [acc @ [c]]"
| "splitlines_acc acc (c # d # cs) =
     (if c = CHR 0x0D \<and> d = CHR 0x0A then (acc @ [c, d]) # splitlines_acc [] cs
      else if is_linebreak c then (acc @ [c]) # splitlines_acc [] (d # cs)
      else splitlines_acc (acc @ [c]) (d # cs))"

definition splitlines_keepends :: "string \<Rightarrow> string list" where
  "splitlines_keepends s = splitlines_acc [] s"

text \<open>
  \<open>textwrap.indent(text, prefix)\<close> with the default predicate: the prefix is added to
  every line that does not consist solely of whitespace.
\<close>

definition textwrap_indent :: "string \<Rightarrow> string \<Rightarrow> string" where
  "textwrap_indent text prefix =
     concat (map (\<lambda>line. if strip line \<noteq> [] then prefix @ line else line)
                 (splitlines_keepends text))"

text \<open>
  The lines a \<open>StringIO(text)\<close> yields: terminated by \<open>\n\<close> only, terminator kept, the
  last line possibly unterminated.
\<close>

fun io_lines_acc :: "string \<Rightarrow> string \<Rightarrow> string list" where
  "io_lines_acc acc [] = (if acc = [] then [] else [acc])"
| "io_lines_acc acc (c # cs) =
     (if c = CHR 0x0A then (acc @ [c]) # io_lines_acc [] cs
      else io_lines_acc (acc @ [c]) cs)"

definition StringIO :: "string \<Rightarrow> string list" where
  "StringIO text = io_lines_acc [] text"

section \<open>Configuration, external collaborators, signals\<close>

type_synonym path = string

record Config =
  line_ending :: string
  config_add_imports :: "string list"
  import_headings :: "(string \<times> string) list"
  force_adds :: bool
  atomic :: bool
  ignore_whitespace :: bool
  verbose :: bool
  is_skipped :: "path \<Rightarrow> bool"

text \<open>
  The modules \<open>output\<close>, \<open>parse\<close>, \<open>format\<close> and \<open>settings\<close>, and the builtin
  \<open>compile\<close>, are collaborators of \<open>api.py\<close>; they are parameters of the model.
  \<open>sorted_section cfg extension text\<close> stands for
  \<open>output.sorted_imports(parse.file_contents(text, config=cfg), cfg, extension)\<close>, and
  \<open>compiles text\<close> holds when \<open>compile(text, ..., "exec", 0, 1)\<close> raises no
  \<open>SyntaxError\<close>.
\<close>

record externals =
  format_natural :: "string \<Rightarrow> string"
  sorted_section :: "Config \<Rightarrow> string \<Rightarrow> string \<Rightarrow> string"
  compiles :: "string \<Rightarrow> bool"
  remove_whitespace :: "string \<Rightarrow> string \<Rightarrow> string"
  infer_line_separator :: "string \<Rightarrow> string"
  FILE_SKIP_COMMENTS :: "string list"
  DEFAULT_CONFIG :: Config
  make_Config :: "(string \<times> string) list \<Rightarrow> Config"

datatype error =
    ValueError
  | FileSkipSetting string
  | FileSkipComment string
  | ExistingSyntaxErrors string
  | IntroducedSyntaxErrors string

abbreviation dquote :: char where
  "dquote \<equiv> CHR 0x22"

abbreviation squote :: char where
  "squote \<equiv> CHR 0x27"

abbreviation backslash :: char where
  "backslash \<equiv> CHR 0x5C"

definition IMPORT_START_IDENTIFIERS :: "string list" where
  "IMPORT_START_IDENTIFIERS = [''from '', ''from.import'', ''import '', ''import*'']"

definition COMMENT_INDICATORS :: "string list" where
  "COMMENT_INDICATORS =
     [[dquote, dquote, dquote], [squote, squote, squote], [squote], [dquote], ''#'']"

section \<open>The streaming engine \<open>sort_imports\<close>\<close>

text \<open>The local variables of \<open>sort_imports\<close> that live across loop iterations, and the
  text written to \<open>output_stream\<close> so far.\<close>

record scan_state =
  line_separator :: string
  add_imports :: "string list"
  import_section :: string
  in_quote :: string
  first_comment_index_start :: int
  first_comment_index_end :: int
  contains_imports :: bool
  in_top_comment :: bool
  first_import_section :: bool
  indent :: string
  isort_off :: bool
  output_stream :: string

definition initial_state :: "Config \<Rightarrow> externals \<Rightarrow> scan_state" where
  "initial_state config ext =
     \<lparr> line_separator = line_ending config,
       add_imports = map (format_natural ext) (config_add_imports config),
       import_section = [],
       in_quote = [],
       first_comment_index_start = -1,
       first_comment_index_end = -1,
       contains_imports = False,
       in_top_comment = False,
       first_import_section = True,
       indent = [],
       isort_off = False,
       output_stream = [] \<rparr>"

definition section_comments :: "Config \<Rightarrow> string list" where
  "section_comments config = map (\<lambda>heading. ''# '' @ heading) (map snd (import_headings config))"

text \<open>
  An input stream is the list of strings its successive \<open>readline()\<close> calls return;
  after the list, \<open>readline()\<close> returns the empty string for ever. Iterating the stream
  calls \<open>readline()\<close> and stops at the first empty result.
\<close>

definition readline :: "string list \<Rightarrow> string \<times> string list" where
  "readline input_stream = (case input_stream of [] \<Rightarrow> ([], []) | l # rest \<Rightarrow> (l, rest))"

definition next_line :: "string list \<Rightarrow> (string \<times> string list) option" where
  "next_line input_stream =
     (case input_stream of
        [] \<Rightarrow> None
      | l # rest \<Rightarrow> if l = [] then None else Some (l, rest))"

subsection \<open>Quote and comment tracker\<close>

text \<open>The \<open>while char_index < len(line)\<close> loop.\<close>

function while_char :: "string \<Rightarrow> nat \<Rightarrow> nat \<Rightarrow> scan_state \<Rightarrow> scan_state" where
  "while_char line index char_index st =
     (if char_index < length line then
        (if line ! char_index = backslash then
           while_char line index (char_index + 1 + 1) st
         else if in_quote st \<noteq> [] then
           (if take (length (in_quote st)) (drop char_index line) = in_quote st then
              while_char line index (char_index + 1)
                (st\<lparr>in_quote := [],
                    first_comment_index_end :=
                      (if first_comment_index_end st < first_comment_index_start st
                       then int index else first_comment_index_end st)\<rparr>)
            else while_char line index (char_index + 1) st)
         else if line ! char_index = squote \<or> line ! char_index = dquote then
           (if take 3 (drop char_index line) = [dquote, dquote, dquote]
               \<or> take 3 (drop char_index line) = [squote, squote, squote] then
              while_char line index (char_index + 2 + 1)
                (st\<lparr>in_quote := take 3 (drop char_index line)\<rparr>)
            else while_char line index (char_index + 1) (st\<lparr>in_quote := [line ! char_index]\<rparr>))
         else if line ! char_index = CHR ''#'' then st
         else while_char line index (char_index + 1) st)
      else st)"
  by pat_completeness auto
termination
  by (relation "measure (\<lambda>(line, index, char_index, st). length line - char_index)") auto

declare while_char.simps [simp del]

definition track_top_comment :: "Config \<Rightarrow> nat \<Rightarrow> string \<Rightarrow> scan_state \<Rightarrow> scan_state" where
  "track_top_comment config index line st =
     (if (index = 0 \<or> (index = 1 \<and> \<not> contains_imports st))
         \<and> startswith (strip line) ''#''
         \<and> strip line \<notin> set (section_comments config)
      then st\<lparr>in_top_comment := True\<rparr>
      else if in_top_comment st then
        (if \<not> startswith line ''#'' \<or> strip line \<in> set (section_comments config)
         then st\<lparr>in_top_comment := False, first_comment_index_end := int index - 1\<rparr>
         else st)
      else st)"

definition track_quotes :: "nat \<Rightarrow> string \<Rightarrow> scan_state \<Rightarrow> scan_state" where
  "track_quotes index line st =
     (if ((\<not> startswith (strip line) ''#'' \<or> in_quote st \<noteq> []) \<and> dquote \<in> set line)
         \<or> squote \<in> set line
      then while_char line index 0
             (if first_comment_index_start st = -1
                 \<and> (startswith line [dquote] \<or> startswith line [squote])
              then st\<lparr>first_comment_index_start := int index\<rparr> else st)
      else st)"

subsection \<open>Import statements that continue over several physical lines\<close>

text \<open>
  \<open>while stripped_line and stripped_line.endswith("\\")\<close>: reads on while the last
  line read, cut at its first \<open>#\<close>, ends in a backslash. At the end of the stream
  \<open>readline()\<close> returns the empty string and the loop stops.
\<close>

function while_backslash :: "string \<Rightarrow> string \<Rightarrow> string list \<Rightarrow> string \<times> string \<times> string list" where
  "while_backslash stripped_line section_text input_stream =
     (if stripped_line \<noteq> [] \<and> endswith stripped_line [backslash] then
        while_backslash (split_hash_0 (strip (fst (readline input_stream))))
          (section_text @ fst (readline input_stream)) (snd (readline input_stream))
      else (stripped_line, section_text, input_stream))"
  by pat_completeness auto
termination
  by (relation "measure (\<lambda>(stripped_line, section_text, input_stream).
        2 * length input_stream
        + (if stripped_line \<noteq> [] \<and> endswith stripped_line [backslash] then 1 else 0))")
     (auto simp: readline_def split_hash_0_def strip_def rstrip_def lstrip_def split: list.splits)

declare while_backslash.simps [simp del]

text \<open>
  \<open>while ")" not in stripped_line\<close>: reads on until a line, cut at its first \<open>#\<close>,
  contains a closing parenthesis. Nothing in the loop looks at the end of the stream.
\<close>

partial_function (option) while_paren ::
  "string \<Rightarrow> string \<Rightarrow> string list \<Rightarrow> (string \<times> string \<times> string list) option" where
  "while_paren stripped_line section_text input_stream =
     (if CHR '')'' \<notin> set stripped_line then
        while_paren (split_hash_0 (strip (fst (readline input_stream))))
          (section_text @ fst (readline input_stream)) (snd (readline input_stream))
      else Some (stripped_line, section_text, input_stream))"

declare while_paren.simps [code]

text \<open>The enclosing \<open>while\<close>; it returns the grown section and the rest of the stream.\<close>

partial_function (option) while_continuation ::
  "string \<Rightarrow> string \<Rightarrow> string list \<Rightarrow> (string \<times> string list) option" where
  "while_continuation stripped_line section_text input_stream =
     (if endswith stripped_line [backslash]
         \<or> (CHR ''('' \<in> set stripped_line \<and> CHR '')'' \<notin> set stripped_line) then
        (if endswith stripped_line [backslash] then
           (case while_backslash stripped_line section_text input_stream of
              (stripped_line', section_text', input_stream') \<Rightarrow>
                while_continuation stripped_line' section_text' input_stream')
         else
           do {
             (stripped_line', section_text', input_stream') \<leftarrow>
                while_paren stripped_line section_text input_stream;
             while_continuation stripped_line' section_text' input_stream'
           })
      else Some (section_text, input_stream))"

declare while_continuation.simps [code]

subsection \<open>Line classifier\<close>

text \<open>
  The part of the loop body from \<open>not_imports = bool(in_quote) or in_top_comment or
  isort_off\<close> to the end of the \<open>else\<close> branch. It returns the state, \<open>not_imports\<close>
  and the rest of the stream. \<open>line[: -len(line.lstrip())]\<close> is the empty string when
  \<open>line.lstrip()\<close> is empty.
\<close>

definition classify ::
  "nat \<Rightarrow> string \<Rightarrow> scan_state \<Rightarrow> string list \<Rightarrow> (scan_state \<times> bool \<times> string list) option" where
  "classify index line st input_stream =
     (let not_imports = (in_quote st \<noteq> [] \<or> in_top_comment st \<or> isort_off st) in
      if \<not> (in_quote st \<noteq> [] \<or> in_top_comment st) then
        (if isort_off st then
           (if strip line = ''# isort: on''
            then Some (st\<lparr>isort_off := False\<rparr>, not_imports, input_stream)
            else Some (st, not_imports, input_stream))
         else if strip line = ''# isort: off'' then
           Some (st\<lparr>isort_off := True\<rparr>, True, input_stream)
         else if strip line = ''# isort: split'' then
           Some (st, True, input_stream)
         else if strip line = [] \<or> startswith (strip line) ''#'' then
           Some (st\<lparr>import_section := import_section st @ line\<rparr>, not_imports, input_stream)
         else if startswith_any (strip line) IMPORT_START_IDENTIFIERS then
           do {
             (section_text', input_stream') \<leftarrow>
                while_continuation (strip line) (import_section st @ line) input_stream;
             Some (st\<lparr>contains_imports := True,
                      indent := (if lstrip line = [] then []
                                 else take (length line - length (lstrip line)) line),
                      import_section := section_text'\<rparr>,
                   not_imports, input_stream')
           }
         else Some (st, True, input_stream))
      else Some (st, not_imports, input_stream))"

subsection \<open>Flush controller\<close>

text \<open>The body of \<open>if not_imports:\<close>, in the order of the source.\<close>

definition inject_add_imports :: "string \<Rightarrow> scan_state \<Rightarrow> scan_state" where
  "inject_add_imports line st =
     (if add_imports st \<noteq> [] \<and> \<not> in_top_comment st \<and> in_quote st = []
         \<and> import_section st = []
         \<and> \<not> startswith_any (lstrip line) COMMENT_INDICATORS
      then st\<lparr>import_section := join (line_separator st) (add_imports st) @ line_separator st,
              contains_imports := True,
              add_imports := []\<rparr>
      else st)"

definition append_add_imports :: "scan_state \<Rightarrow> scan_state" where
  "append_add_imports st =
     (if add_imports st \<noteq> [] \<and> indent st = []
      then st\<lparr>import_section :=
                import_section st @ join (line_separator st) (add_imports st) @ line_separator st,
              contains_imports := True,
              add_imports := []\<rparr>
      else st)"

definition fold_line :: "string \<Rightarrow> scan_state \<Rightarrow> scan_state" where
  "fold_line line st =
     (if indent st = [] then st\<lparr>import_section := import_section st @ line\<rparr> else st)"

definition strip_leading_separators :: "scan_state \<Rightarrow> scan_state" where
  "strip_leading_separators st =
     (if first_import_section st
         \<and> \<not> startswith_any (lstrip_chars (import_section st) (line_separator st))
               COMMENT_INDICATORS
      then st\<lparr>import_section := lstrip_chars (import_section st) (line_separator st),
              first_import_section := False\<rparr>
      else st)"

definition dedent :: "scan_state \<Rightarrow> scan_state" where
  "dedent st =
     (if indent st \<noteq> []
      then st\<lparr>import_section :=
                join (line_separator st)
                     (map lstrip (split (import_section st) (line_separator st)))\<rparr>
      else st)"

definition write_sorted :: "Config \<Rightarrow> externals \<Rightarrow> string \<Rightarrow> scan_state \<Rightarrow> scan_state" where
  "write_sorted config ext extension st =
     st\<lparr>output_stream := output_stream st @
          (if indent st \<noteq> []
           then textwrap_indent (sorted_section ext config extension (import_section st))
                  (indent st) @ line_separator st
           else sorted_section ext config extension (import_section st))\<rparr>"

definition emit_section :: "Config \<Rightarrow> externals \<Rightarrow> string \<Rightarrow> scan_state \<Rightarrow> scan_state" where
  "emit_section config ext extension st =
     (if \<not> contains_imports st
      then st\<lparr>output_stream := output_stream st @ import_section st\<rparr>
      else write_sorted config ext extension (dedent (strip_leading_separators st)))"

definition write_line_after :: "string \<Rightarrow> scan_state \<Rightarrow> scan_state" where
  "write_line_after line st =
     (if indent st \<noteq> []
      then st\<lparr>output_stream := output_stream st @ line, indent := []\<rparr>
      else st)"

definition flush :: "Config \<Rightarrow> externals \<Rightarrow> string \<Rightarrow> string \<Rightarrow> scan_state \<Rightarrow> scan_state" where
  "flush config ext extension line st =
     (if import_section (inject_add_imports line st) \<noteq> [] then
        (write_line_after line
           (emit_section config ext extension
              (fold_line line (append_add_imports (inject_add_imports line st)))))
          \<lparr>contains_imports := False, import_section := []\<rparr>
      else (inject_add_imports line st)
          \<lparr>output_stream := output_stream (inject_add_imports line st) @ line\<rparr>)"

subsection \<open>The loop over the lines and the end-of-stream sentinel\<close>

text \<open>
  One iteration for a line of the stream. First the line separator is inferred if none
  is known yet, then the top-comment flag and the quote state are brought up to date.
  The iterator never yields an empty line, so \<open>line[-1]\<close> is its last character.
\<close>

definition scan_line :: "Config \<Rightarrow> nat \<Rightarrow> string \<Rightarrow> scan_state \<Rightarrow> scan_state" where
  "scan_line config index line st =
     track_quotes index line
       (track_top_comment config index line
          (st\<lparr>line_separator :=
                (if line_separator st = [] then [last line] else line_separator st)\<rparr>))"

definition loop_body ::
  "Config \<Rightarrow> externals \<Rightarrow> string \<Rightarrow> nat \<Rightarrow> string \<Rightarrow> scan_state \<Rightarrow> string list
     \<Rightarrow> (scan_state \<times> string list) option" where
  "loop_body config ext extension index line st input_stream =
     do {
       (st', not_imports, input_stream') \<leftarrow>
          classify index line (scan_line config index line st) input_stream;
       Some (if not_imports then flush config ext extension line st' else st', input_stream')
     }"

text \<open>The iteration for the sentinel \<open>None\<close> that \<open>chain\<close> appends to the stream.\<close>

definition end_of_stream ::
  "Config \<Rightarrow> externals \<Rightarrow> string \<Rightarrow> nat \<Rightarrow> scan_state \<Rightarrow> scan_state" where
  "end_of_stream config ext extension index st =
     (if index = 0 \<and> \<not> force_adds config then st
      else flush config ext extension []
             (st\<lparr>line_separator :=
                   (if line_separator st = [] then [CHR 0x0A] else line_separator st)\<rparr>))"

partial_function (option) for_lines ::
  "Config \<Rightarrow> externals \<Rightarrow> string \<Rightarrow> nat \<Rightarrow> scan_state \<Rightarrow> string list \<Rightarrow> scan_state option" where
  "for_lines config ext extension index st input_stream =
     (case next_line input_stream of
        None \<Rightarrow> Some (end_of_stream config ext extension index st)
      | Some (line, rest) \<Rightarrow>
          do {
            (st', input_stream') \<leftarrow> loop_body config ext extension index line st rest;
            for_lines config ext extension (index + 1) st' input_stream'
          })"

declare for_lines.simps [code]

text \<open>\<open>sort_imports\<close> returns nothing; its result here is the text written to
  \<open>output_stream\<close>, and \<open>None\<close> when the call does not return.\<close>

definition sort_imports :: "Config \<Rightarrow> externals \<Rightarrow> string \<Rightarrow> string list \<Rightarrow> string option" where
  "sort_imports config ext extension input_stream =
     map_option output_stream
       (for_lines config ext extension 0 (initial_state config ext) input_stream)"

section \<open>The entry points \<open>sorted_imports\<close> and \<open>check_imports\<close>\<close>

text \<open>
  \<open>_config\<close>. The source tests \<open>config is DEFAULT_CONFIG\<close> by identity, so the
  \<open>config\<close> argument is either the default object or a Configuration that was passed
  in or built; \<open>config_kwargs\<close> is the list of keyword arguments.
\<close>

datatype config_arg = Default_Config | Passed Config

fun is_DEFAULT_CONFIG :: "config_arg \<Rightarrow> bool" where
  "is_DEFAULT_CONFIG Default_Config = True"
| "is_DEFAULT_CONFIG (Passed c) = False"

fun the_config :: "externals \<Rightarrow> config_arg \<Rightarrow> Config" where
  "the_config ext Default_Config = DEFAULT_CONFIG ext"
| "the_config ext (Passed c) = c"

definition add_settings_path ::
  "path option \<Rightarrow> config_arg \<Rightarrow> (string \<times> string) list \<Rightarrow> (string \<times> string) list" where
  "add_settings_path path config config_kwargs =
     (case path of
        None \<Rightarrow> config_kwargs
      | Some p \<Rightarrow>
          if is_DEFAULT_CONFIG config
             \<and> ''settings_path'' \<notin> set (map fst config_kwargs)
             \<and> ''settings_file'' \<notin> set (map fst config_kwargs)
          then config_kwargs @ [(''settings_path'', p)]
          else config_kwargs)"

definition internal_config ::
  "externals \<Rightarrow> path option \<Rightarrow> config_arg \<Rightarrow> (string \<times> string) list \<Rightarrow> error + config_arg" where
  "internal_config ext path config config_kwargs =
     (if add_settings_path path config config_kwargs \<noteq> [] \<and> \<not> is_DEFAULT_CONFIG config
      then Inl ValueError
      else if add_settings_path path config config_kwargs \<noteq> []
      then Inr (Passed (make_Config ext (add_settings_path path config config_kwargs)))
      else Inr config)"

definition content_source :: "path option \<Rightarrow> string" where
  "content_source file_path = (case file_path of Some p \<Rightarrow> p | None \<Rightarrow> ''Passed in content'')"

definition path_skipped :: "Config \<Rightarrow> path option \<Rightarrow> bool" where
  "path_skipped config file_path =
     (case file_path of Some p \<Rightarrow> is_skipped config p | None \<Rightarrow> False)"

text \<open>
  \<open>sorted_imports\<close>: \<open>Inl\<close> is a raised signal, \<open>Inr\<close> the returned text, \<open>None\<close> a call
  that does not return. Both \<open>compile\<close> calls are given \<open>file_contents\<close>.
\<close>

definition sorted_imports ::
  "externals \<Rightarrow> string \<Rightarrow> string \<Rightarrow> config_arg \<Rightarrow> path option \<Rightarrow> bool
     \<Rightarrow> (string \<times> string) list \<Rightarrow> (error + string) option" where
  "sorted_imports ext file_contents extension config file_path disregard_skip config_kwargs =
     (case internal_config ext None config config_kwargs of
        Inl e \<Rightarrow> Some (Inl e)
      | Inr resolved \<Rightarrow>
          if \<not> disregard_skip \<and> path_skipped (the_config ext resolved) file_path then
            Some (Inl (FileSkipSetting (content_source file_path)))
          else if \<not> disregard_skip
                  \<and> list_ex (\<lambda>file_skip_comment. str_in file_skip_comment file_contents)
                        (FILE_SKIP_COMMENTS ext) then
            Some (Inl (FileSkipComment (content_source file_path)))
          else if atomic (the_config ext resolved) \<and> \<not> compiles ext file_contents then
            Some (Inl (ExistingSyntaxErrors (content_source file_path)))
          else
            (case sort_imports (the_config ext resolved) ext extension (StringIO file_contents) of
               None \<Rightarrow> None
             | Some parsed_output \<Rightarrow>
                 if atomic (the_config ext resolved) \<and> \<not> compiles ext file_contents then
                   Some (Inl (IntroducedSyntaxErrors (content_source file_path)))
                 else Some (Inr parsed_output)))"

text \<open>
  \<open>check_imports\<close>, its return value; the messages it prints and the diff it shows are
  not part of the model. The resolved configuration is passed on to \<open>sorted_imports\<close>
  together with the same \<open>config_kwargs\<close>.
\<close>

definition check_imports ::
  "externals \<Rightarrow> string \<Rightarrow> string \<Rightarrow> config_arg \<Rightarrow> path option \<Rightarrow> bool
     \<Rightarrow> (string \<times> string) list \<Rightarrow> (error + bool) option" where
  "check_imports ext file_contents extension config file_path disregard_skip config_kwargs =
     (case internal_config ext None config config_kwargs of
        Inl e \<Rightarrow> Some (Inl e)
      | Inr resolved \<Rightarrow>
          (case sorted_imports ext file_contents extension resolved file_path disregard_skip
                  config_kwargs of
             None \<Rightarrow> None
           | Some (Inl e) \<Rightarrow> Some (Inl e)
           | Some (Inr sorted_output) \<Rightarrow>
               if ignore_whitespace (the_config ext resolved) then
                 Some (Inr
                   (strip (remove_whitespace ext sorted_output
                       (if line_ending (the_config ext resolved) \<noteq> []
                        then line_ending (the_config ext resolved)
                        else infer_line_separator ext file_contents))
                    = strip (remove_whitespace ext file_contents
                       (if line_ending (the_config ext resolved) \<noteq> []
                        then line_ending (the_config ext resolved)
                        else infer_line_separator ext file_contents))))
               else Some (Inr (strip sorted_output = strip file_contents))))"

text \<open>The part of the state that the quote and comment tracker leaves alone.\<close>

definition untracked :: "scan_state \<Rightarrow> string \<times> string list \<times> string \<times> bool \<times> bool \<times> string \<times> bool \<times> string \<times> bool" where
  "untracked st = (line_separator st, add_imports st, import_section st, contains_imports st,
     first_import_section st, indent st, isort_off st, output_stream st, in_top_comment st)"

section \<open>Kinds of input lines and scanner states\<close>









section \<open>Example configurations and collaborators\<close>

text \<open>The default configuration: nothing configured, no additions, no validation.\<close>

definition plain_config :: Config where
  "plain_config =
     \<lparr> line_ending = [], config_add_imports = [], import_headings = [],
       force_adds = False, atomic = False, ignore_whitespace = False, verbose = False,
       is_skipped = (\<lambda>p. False) \<rparr>"

definition forced_config :: Config where
  "forced_config = plain_config\<lparr>config_add_imports := [''import os''], force_adds := True\<rparr>"

definition adding_config :: Config where
  "adding_config = plain_config\<lparr>config_add_imports := [''import os'']\<rparr>"

definition atomic_config :: Config where
  "atomic_config = plain_config\<lparr>atomic := True\<rparr>"

text \<open>
  Collaborators for the examples. The sort contract of \<open>identity_externals\<close> returns
  its input; the one of \<open>marking_externals\<close> brackets the text it is handed, which shows
  in the output what the engine passed to it; the one of \<open>tidy_externals\<close> removes
  the trailing whitespace of every line of its text. \<open>compile\<close> accepts every text
  that has no \<open>!\<close>.
\<close>

definition identity_externals :: externals where
  "identity_externals =
     \<lparr> format_natural = (\<lambda>s. s),
       sorted_section = (\<lambda>config extension text. text),
       compiles = (\<lambda>text. CHR ''!'' \<notin> set text),
       remove_whitespace = (\<lambda>text sep. filter (\<lambda>c. c \<noteq> CHR '' '') text),
       infer_line_separator = (\<lambda>text. [CHR 0x0A]),
       FILE_SKIP_COMMENTS = [''isort:skip_file'', ''isort: skip_file''],
       DEFAULT_CONFIG = plain_config,
       make_Config = (\<lambda>kwargs. plain_config) \<rparr>"

definition marking_externals :: externals where
  "marking_externals =
     identity_externals\<lparr>sorted_section := (\<lambda>config extension text. ''<'' @ text @ ''>'')\<rparr>"






section \<open>Facts about the string operations\<close>

lemma lstrip_leading:
  "\<forall>c\<in>set a. is_space c \<Longrightarrow> lstrip (a @ s) = lstrip s"
  by (simp add: lstrip_def)

lemma rstrip_trailing:
  assumes "\<forall>c\<in>set b. is_space c"
  shows "rstrip (s @ b) = rstrip s"
proof -
  have "dropWhile is_space (rev b @ rev s) = dropWhile is_space (rev s)"
    by (rule dropWhile_append2) (use assms in auto)
  then show ?thesis by (simp add: rstrip_def)
qed

lemma rstrip_all_space:
  "\<forall>c\<in>set b. is_space c \<Longrightarrow> rstrip b = []"
  by (simp add: rstrip_def)

lemma strip_trailing:
  assumes "\<forall>c\<in>set b. is_space c"
  shows "strip (s @ b) = strip s"
proof (cases "\<forall>c\<in>set s. is_space c")
  case True
  then have "lstrip (s @ b) = []" "lstrip s = []"
    using assms by (auto simp: lstrip_def)
  then show ?thesis by (simp add: strip_def)
next
  case False
  then have "lstrip (s @ b) = lstrip s @ b"
    by (auto simp: lstrip_def)
  then show ?thesis using assms by (simp add: strip_def rstrip_trailing)
qed

lemma strip_surrounding:
  "\<forall>c\<in>set a. is_space c \<Longrightarrow> \<forall>c\<in>set b. is_space c \<Longrightarrow> strip (a @ s @ b) = strip s"
  using strip_trailing [of b "a @ s"] by (simp add: strip_def lstrip_leading)

lemma startswith_iff: "startswith s p \<longleftrightarrow> (\<exists>t. s = p @ t)"
  unfolding startswith_def by (metis append_eq_conv_conj append_take_drop_id)

lemma import_start_facts:
  assumes "startswith_any s IMPORT_START_IDENTIFIERS"
  shows "\<not> startswith s ''#''" "s \<noteq> []" "s \<noteq> ''# isort: on''" "s \<noteq> ''# isort: off''"
    "s \<noteq> ''# isort: split''"
  using assms
  by (auto simp: startswith_any_def IMPORT_START_IDENTIFIERS_def startswith_iff)

section \<open>End of the stream inside a continuation\<close>

lemma while_paren_eof_aux:
  assumes "while_paren stripped_line sec input_stream = Some r"
  shows "input_stream = [] \<longrightarrow> CHR '')'' \<in> set stripped_line"
  by (rule while_paren.raw_induct
        [where P = "\<lambda>s sec st r. st = [] \<longrightarrow> CHR '')'' \<in> set s", OF _ assms])
     (fastforce simp: readline_def split_hash_0_def strip_def rstrip_def lstrip_def
        split: if_splits)

lemma while_paren_eof:
  "CHR '')'' \<notin> set stripped_line \<Longrightarrow> while_paren stripped_line sec [] = None"
  using while_paren_eof_aux [of stripped_line sec "[]"]
  by (cases "while_paren stripped_line sec []") auto

lemma while_continuation_eof:
  "\<not> endswith stripped_line [backslash] \<Longrightarrow> CHR ''('' \<in> set stripped_line \<Longrightarrow>
   CHR '')'' \<notin> set stripped_line \<Longrightarrow> while_continuation stripped_line sec [] = None"
  by (subst while_continuation.simps) (simp add: while_paren_eof)

text \<open>
  A stream whose only line starts an import statement and opens a parenthesis that the
  line does not close: the engine never returns.
\<close>

lemma lone_unclosed_import_never_returns:
  assumes "line \<noteq> []" "squote \<notin> set line" "dquote \<notin> set line"
    and "startswith_any (strip line) IMPORT_START_IDENTIFIERS"
    and "\<not> endswith (strip line) [backslash]"
    and "CHR ''('' \<in> set (strip line)" "CHR '')'' \<notin> set (strip line)"
  shows "sort_imports config ext extension [line] = None"
proof -
  have c: "while_continuation (strip line) sec [] = None" for sec
    using assms by (intro while_continuation_eof)
  note f = import_start_facts [OF assms(4)]
  show ?thesis
    apply (simp add: sort_imports_def)
    apply (subst for_lines.simps)
    apply (simp add: next_line_def loop_body_def assms)
    apply (simp add: initial_state_def scan_line_def track_top_comment_def track_quotes_def
        assms f)
    apply (simp add: classify_def assms f c)
    done
qed

text \<open>
  Claim C8. For every finite input stream \<open>sort_imports\<close> terminates, also when the
  input ends inside an unresolved continuation. The code does not: on the one-line
  stream \<open>from a import (\<close> the loop \<open>while ")" not in stripped_line\<close> reads the empty
  string at the end of the stream for ever, under every configuration, so the call
  never returns.
\<close>

theorem unclosed_parenthesis_never_returns:
  "sort_imports config ext extension [''from a import (\<newline>''] = None"
  by (rule lone_unclosed_import_never_returns) code_simp+

section \<open>The empty stream\<close>

text \<open>
  Claim C5. On an empty input stream with forced injection disabled the engine writes
  nothing. With forced injection enabled and the single pending addition \<open>import os\<close>
  the output is \<open>import os\<close> followed by one line ending (the configured one, or
  \<open>\n\<close>), given that the collaborators leave that already formatted statement as it
  is: \<open>format_natural\<close> returns \<open>import os\<close> for \<open>import os\<close>, the sort contract
  returns the one-statement block unchanged, and the configured line ending does not
  contain the letter \<open>i\<close>.
\<close>

theorem empty_stream:
  "(\<not> force_adds config \<longrightarrow> sort_imports config ext extension [] = Some [])
   \<and> (force_adds config \<and> config_add_imports config = [''import os'']
        \<and> CHR ''i'' \<notin> set (line_ending config)
        \<and> format_natural ext ''import os'' = ''import os''
        \<and> sorted_section ext config extension
             (''import os'' @ (if line_ending config = [] then [CHR 0x0A] else line_ending config))
           = ''import os'' @ (if line_ending config = [] then [CHR 0x0A] else line_ending config)
      \<longrightarrow> sort_imports config ext extension []
           = Some (''import os'' @
                   (if line_ending config = [] then [CHR 0x0A] else line_ending config)))"
  apply (simp add: sort_imports_def)
  apply (subst for_lines.simps)+
  apply (simp add: next_line_def end_of_stream_def initial_state_def)
  apply (simp add: flush_def inject_add_imports_def startswith_any_def COMMENT_INDICATORS_def
      startswith_def lstrip_def append_add_imports_def fold_line_def emit_section_def
      write_sorted_def dedent_def strip_leading_separators_def write_line_after_def
      lstrip_chars_def)
  done

theorem empty_stream_witness:
  "sort_imports plain_config identity_externals ''py'' [] = Some []
   \<and> sort_imports forced_config identity_externals ''py'' [] = Some ''import os\<newline>''"
  using empty_stream [of plain_config identity_externals "''py''"]
        empty_stream [of forced_config identity_externals "''py''"]
  by (simp add: plain_config_def forced_config_def identity_externals_def)

section \<open>Skip requests\<close>

text \<open>
  Claim C6. When the configuration resolves, and the file path matches a skip rule or
  the text contains one of the skip-file markers, \<open>sorted_imports\<close> with skip checks
  in force raises a skip signal, whatever the collaborators do and whether or not the
  engine would return on that text; with \<open>disregard_skip\<close> it raises no skip signal.
\<close>

theorem skip_requested:
  assumes "internal_config ext None config config_kwargs = Inr resolved"
      and "path_skipped (the_config ext resolved) file_path
           \<or> (\<exists>marker\<in>set (FILE_SKIP_COMMENTS ext). str_in marker file_contents)"
  shows "sorted_imports ext file_contents extension config file_path False config_kwargs
           \<in> {Some (Inl (FileSkipSetting (content_source file_path))),
               Some (Inl (FileSkipComment (content_source file_path)))}
         \<and> (\<forall>src. sorted_imports ext file_contents extension config file_path True config_kwargs
               \<notin> {Some (Inl (FileSkipSetting src)), Some (Inl (FileSkipComment src))})"
  using assms
  by (auto simp: sorted_imports_def list_ex_iff split: option.splits)

theorem skip_requested_witness:
  "internal_config identity_externals None Default_Config [] = Inr Default_Config
   \<and> (\<exists>marker\<in>set (FILE_SKIP_COMMENTS identity_externals).
         str_in marker ''# isort:skip_file\<newline>import os\<newline>'')
   \<and> sorted_imports identity_externals ''# isort:skip_file\<newline>import os\<newline>'' ''py''
        Default_Config None False [] = Some (Inl (FileSkipComment ''Passed in content''))
   \<and> sorted_imports identity_externals ''# isort:skip_file\<newline>import os\<newline>'' ''py''
        Default_Config None True [] = Some (Inr ''# isort:skip_file\<newline>import os\<newline>'')"
proof -
  have a: "internal_config identity_externals None Default_Config [] = Inr Default_Config"
    by (simp add: internal_config_def add_settings_path_def)
  have b: "\<exists>marker\<in>set (FILE_SKIP_COMMENTS identity_externals).
             str_in marker ''# isort:skip_file\<newline>import os\<newline>''"
    by (simp add: identity_externals_def startswith_def)
  have c: "sorted_imports identity_externals ''# isort:skip_file\<newline>import os\<newline>'' ''py''
             Default_Config None False [] \<noteq> Some (Inl (FileSkipSetting ''Passed in content''))"
    by code_simp
  have d: "sorted_imports identity_externals ''# isort:skip_file\<newline>import os\<newline>'' ''py''
        Default_Config None True [] = Some (Inr ''# isort:skip_file\<newline>import os\<newline>'')"
    by code_simp
  from skip_requested [OF a disjI2 [OF b], where extension = "''py''" and file_path = None]
       a b c d show ?thesis
    by (simp add: content_source_def)
qed

section \<open>Atomic mode\<close>

text \<open>
  Claim C7, as stated, fails in atomic mode on a text that carries a skip-file marker
  and does not pass validation: the skip check comes first and its signal is raised,
  not the syntax-error signal. And a text that passes validation gets no text back
  when the engine does not return on it.
\<close>

theorem atomic_validation_counterexample:
  "atomic (the_config identity_externals (Passed atomic_config))
   \<and> \<not> compiles identity_externals ''# isort:skip_file\<newline>!\<newline>''
   \<and> sorted_imports identity_externals ''# isort:skip_file\<newline>!\<newline>'' ''py''
        (Passed atomic_config) None False []
      = Some (Inl (FileSkipComment ''Passed in content''))
   \<and> compiles identity_externals ''import a  # (\<newline>''
   \<and> sorted_imports identity_externals ''import a  # (\<newline>'' ''py''
        (Passed atomic_config) None False [] = None"
proof -
  have a: "atomic (the_config identity_externals (Passed atomic_config))
     \<and> \<not> compiles identity_externals ''# isort:skip_file\<newline>!\<newline>''
     \<and> sorted_imports identity_externals ''# isort:skip_file\<newline>!\<newline>'' ''py''
        (Passed atomic_config) None False []
      = Some (Inl (FileSkipComment ''Passed in content''))
     \<and> compiles identity_externals ''import a  # (\<newline>''"
    by code_simp
  have b: "sort_imports atomic_config identity_externals ''py'' [''import a  # (\<newline>''] = None"
    by (rule lone_unclosed_import_never_returns) code_simp+
  have c: "StringIO ''import a  # (\<newline>'' = [''import a  # (\<newline>'']"
    by code_simp
  have d: "\<not> list_ex (\<lambda>m. str_in m ''import a  # (\<newline>'') (FILE_SKIP_COMMENTS identity_externals)"
    by code_simp
  have "sorted_imports identity_externals ''import a  # (\<newline>'' ''py''
        (Passed atomic_config) None False [] = None"
    using a b c d
    by (simp add: sorted_imports_def internal_config_def add_settings_path_def
      path_skipped_def)
  with a show ?thesis by simp
qed

text \<open>
  Claim C7, amended. In atomic mode, when the configuration resolves and the skip
  checks raise nothing (they are disregarded, or neither the path nor the text matches),
  \<open>sorted_imports\<close> raises the pre-existing-syntax-error signal exactly when the
  original text fails validation. The second validation is applied to the original text
  again, so the introduced-syntax-error signal is never raised, and on a text that passes
  validation the call does what the engine does on it: it returns the engine's output
  when the engine returns.
\<close>

theorem atomic_validation:
  assumes "internal_config ext None config config_kwargs = Inr resolved"
      and "atomic (the_config ext resolved)"
      and "disregard_skip \<or> (\<not> path_skipped (the_config ext resolved) file_path
              \<and> \<not> (\<exists>marker\<in>set (FILE_SKIP_COMMENTS ext). str_in marker file_contents))"
  shows "(sorted_imports ext file_contents extension config file_path disregard_skip config_kwargs
            = Some (Inl (ExistingSyntaxErrors (content_source file_path)))
          \<longleftrightarrow> \<not> compiles ext file_contents)
         \<and> (\<forall>src. sorted_imports ext file_contents extension config file_path disregard_skip
                    config_kwargs \<noteq> Some (Inl (IntroducedSyntaxErrors src)))
         \<and> (compiles ext file_contents \<longrightarrow>
              sorted_imports ext file_contents extension config file_path disregard_skip
                config_kwargs
              = map_option Inr
                  (sort_imports (the_config ext resolved) ext extension (StringIO file_contents)))"
  using assms
  by (auto simp: sorted_imports_def list_ex_iff split: option.splits)

theorem atomic_validation_witness:
  "internal_config identity_externals None (Passed atomic_config) [] = Inr (Passed atomic_config)
   \<and> atomic (the_config identity_externals (Passed atomic_config))
   \<and> compiles identity_externals ''import b\<newline>x = 1\<newline>''
   \<and> \<not> compiles identity_externals ''import b\<newline>x = !\<newline>''
   \<and> sorted_imports identity_externals ''import b\<newline>x = 1\<newline>'' ''py'' (Passed atomic_config) None
        True [] = Some (Inr ''import b\<newline>x = 1\<newline>'')
   \<and> sorted_imports identity_externals ''import b\<newline>x = !\<newline>'' ''py'' (Passed atomic_config) None
        True [] = Some (Inl (ExistingSyntaxErrors ''Passed in content''))"
proof -
  have a: "internal_config identity_externals None (Passed atomic_config) []
             = Inr (Passed atomic_config)"
    by (simp add: internal_config_def add_settings_path_def)
  have b: "atomic (the_config identity_externals (Passed atomic_config))"
    by (simp add: atomic_config_def)
  have c: "compiles identity_externals ''import b\<newline>x = 1\<newline>''"
    "\<not> compiles identity_externals ''import b\<newline>x = !\<newline>''"
    by (simp_all add: identity_externals_def)
  have d: "sort_imports atomic_config identity_externals ''py'' (StringIO ''import b\<newline>x = 1\<newline>'')
             = Some ''import b\<newline>x = 1\<newline>''"
    by code_simp
  from atomic_validation [OF a b, where disregard_skip = True
         and file_contents = "''import b\<newline>x = 1\<newline>''" and file_path = None and extension = "''py''"]
       atomic_validation [OF a b, where disregard_skip = True
         and file_contents = "''import b\<newline>x = !\<newline>''" and file_path = None and extension = "''py''"]
       a b c d
  show ?thesis by (simp add: content_source_def)
qed

section \<open>\<open>check_imports\<close> compares stripped texts\<close>

text \<open>
  Claim C10. With \<open>ignore_whitespace\<close> disabled, \<open>check_imports\<close> compares the input
  text and the sorted output after stripping both of leading and trailing whitespace:
  it returns whether the stripped texts are equal, so it returns \<open>True\<close> whenever the
  two differ only in leading or trailing whitespace.
\<close>

theorem check_imports_strips:
  assumes "sorted_imports ext file_contents extension config file_path disregard_skip []
             = Some (Inr sorted_output)"
      and "\<not> ignore_whitespace (the_config ext config)"
  shows "check_imports ext file_contents extension config file_path disregard_skip []
           = Some (Inr (strip sorted_output = strip file_contents))
         \<and> ((\<exists>a b a' b' body. (\<forall>c\<in>set (a @ b @ a' @ b'). is_space c)
                \<and> sorted_output = a @ body @ b \<and> file_contents = a' @ body @ b')
             \<longrightarrow> check_imports ext file_contents extension config file_path disregard_skip []
                   = Some (Inr True))"
proof -
  have r: "internal_config ext None config [] = Inr config"
    by (simp add: internal_config_def add_settings_path_def)
  have c: "check_imports ext file_contents extension config file_path disregard_skip []
           = Some (Inr (strip sorted_output = strip file_contents))"
    using assms by (simp add: check_imports_def r)
  have "strip sorted_output = strip file_contents"
    if "\<forall>c\<in>set (a @ b @ a' @ b'). is_space c" "sorted_output = a @ body @ b"
       "file_contents = a' @ body @ b'" for a b a' b' body
    using that by (simp add: strip_surrounding)
  with c show ?thesis by auto
qed

theorem check_imports_strips_witness:
  "sorted_imports identity_externals ''\<newline>import os\<newline>'' ''py'' (Passed plain_config) None False []
     = Some (Inr ''import os\<newline>'')
   \<and> \<not> ignore_whitespace (the_config identity_externals (Passed plain_config))
   \<and> check_imports identity_externals ''\<newline>import os\<newline>'' ''py'' (Passed plain_config) None False []
     = Some (Inr True)"
proof -
  have a: "sorted_imports identity_externals ''\<newline>import os\<newline>'' ''py'' (Passed plain_config)
             None False [] = Some (Inr ''import os\<newline>'')"
    by code_simp
  have b: "\<not> ignore_whitespace (the_config identity_externals (Passed plain_config))"
    by (simp add: plain_config_def)
  have c: "strip ''import os\<newline>'' = strip ''\<newline>import os\<newline>''"
    by code_simp
  from check_imports_strips [OF a b] c a b show ?thesis by simp
qed

section \<open>Continuation lines\<close>

text \<open>
  What the continuation loops read: a backslash chain up to the first line that, cut at
  its \<open>#\<close>, does not end in a backslash (or up to the end of the stream); a
  parenthesised list up to the first line that, cut at its \<open>#\<close>, contains a closing
  parenthesis.
\<close>

lemma while_paren_reads:
  assumes "\<forall>l\<in>set mid. CHR '')'' \<notin> set (split_hash_0 (strip l))"
      and "CHR '')'' \<in> set (split_hash_0 (strip closing))"
      and "CHR '')'' \<notin> set stripped_line"
  shows "while_paren stripped_line sec (mid @ closing # rest)
           = Some (split_hash_0 (strip closing), sec @ concat mid @ closing, rest)"
  using assms
proof (induction mid arbitrary: stripped_line sec)
  case Nil
  then show ?case
    by (subst while_paren.simps, subst while_paren.simps) (simp add: readline_def)
next
  case (Cons l mid)
  then show ?case
    by (subst while_paren.simps) (simp add: readline_def)
qed

lemma while_backslash_reads:
  assumes "\<forall>l\<in>set mid. split_hash_0 (strip l) \<noteq> [] \<and> endswith (split_hash_0 (strip l)) [backslash]"
      and "\<not> endswith (split_hash_0 (strip final)) [backslash]"
      and "stripped_line \<noteq> []" "endswith stripped_line [backslash]"
  shows "while_backslash stripped_line sec (mid @ final # rest)
           = (split_hash_0 (strip final), sec @ concat mid @ final, rest)"
  using assms
proof (induction mid arbitrary: stripped_line sec)
  case Nil
  then show ?case
    by (subst while_backslash.simps, subst while_backslash.simps) (simp add: readline_def)
next
  case (Cons l mid)
  then show ?case
    by (subst while_backslash.simps) (simp add: readline_def)
qed

lemma while_backslash_eof:
  "while_backslash stripped_line sec [] = (if stripped_line \<noteq> [] \<and> endswith stripped_line [backslash] then [] else stripped_line, sec, [])"
  by (subst while_backslash.simps, subst while_backslash.simps)
     (simp add: readline_def split_hash_0_def strip_def lstrip_def rstrip_def)

lemma while_continuation_done:
  assumes "\<not> endswith stripped_line [backslash]"
      and "CHR ''('' \<in> set stripped_line \<longrightarrow> CHR '')'' \<in> set stripped_line"
  shows "while_continuation stripped_line sec rest = Some (sec, rest)"
  using assms by (subst while_continuation.simps) auto

lemma parenthesized_continuation:
  assumes "CHR ''('' \<in> set stripped_line" "CHR '')'' \<notin> set stripped_line"
      and "\<not> endswith stripped_line [backslash]"
      and "\<forall>l\<in>set mid. CHR '')'' \<notin> set (split_hash_0 (strip l))"
      and "CHR '')'' \<in> set (split_hash_0 (strip closing))"
      and "\<not> endswith (split_hash_0 (strip closing)) [backslash]"
  shows "while_continuation stripped_line sec (mid @ closing # rest)
           = Some (sec @ concat mid @ closing, rest)"
  using assms
  by (subst while_continuation.simps)
     (simp add: while_paren_reads while_continuation_done)

lemma backslash_continuation:
  assumes "endswith stripped_line [backslash]"
      and "\<forall>l\<in>set mid. split_hash_0 (strip l) \<noteq> []
             \<and> endswith (split_hash_0 (strip l)) [backslash]"
      and "\<not> endswith (split_hash_0 (strip final)) [backslash]"
      and "CHR ''('' \<in> set (split_hash_0 (strip final))
             \<longrightarrow> CHR '')'' \<in> set (split_hash_0 (strip final))"
  shows "while_continuation stripped_line sec (mid @ final # rest)
           = Some (sec @ concat mid @ final, rest)"
proof -
  from assms(1) have "stripped_line \<noteq> []" by (auto simp: endswith_def)
  with assms show ?thesis
    by (subst while_continuation.simps)
       (simp add: while_backslash_reads while_continuation_done)
qed

lemma backslash_continuation_eof:
  assumes "endswith stripped_line [backslash]"
  shows "while_continuation stripped_line sec [] = Some (sec, [])"
proof -
  from assms have "stripped_line \<noteq> []" by (auto simp: endswith_def)
  with assms show ?thesis
    by (subst while_continuation.simps)
       (simp add: while_backslash_eof while_continuation_done endswith_def)
qed

text \<open>
  Claim C4. A continuing import statement is pulled into the section as the lemmas
  above state, but the claim's last clause fails on the code: the line that starts the
  statement is tested with its trailing comment still attached, so an opening
  parenthesis that occurs only in that comment starts a continuation, and the lines
  after it are swallowed into the import section up to one that contains a closing
  parenthesis. Below, the sort contract brackets what it is handed: with \<open>(\<close> in the
  comment the two code lines \<open>x = 1\<close> and \<open>y = (2)\<close> are inside the section; without
  it the section ends at \<open>x = 1\<close>.
\<close>

theorem comment_parenthesis_pulls_lines:
  "sort_imports plain_config marking_externals ''py''
     [''import a  # (see\<newline>'', ''x = 1\<newline>'', ''y = (2)\<newline>'', ''z = 3\<newline>'']
   = Some ''<import a  # (see\<newline>x = 1\<newline>y = (2)\<newline>z = 3\<newline>>''
   \<and> sort_imports plain_config marking_externals ''py''
     [''import a  # see\<newline>'', ''x = 1\<newline>'', ''y = (2)\<newline>'', ''z = 3\<newline>'']
   = Some ''<import a  # see\<newline>x = 1\<newline>>y = (2)\<newline>z = 3\<newline>''"
  by code_simp

section \<open>What the tracker leaves alone\<close>

lemma untracked_update [simp]:
  "untracked (st\<lparr>in_quote := q\<rparr>) = untracked st"
  "untracked (st\<lparr>first_comment_index_end := e\<rparr>) = untracked st"
  "untracked (st\<lparr>first_comment_index_start := b\<rparr>) = untracked st"
  by (simp_all add: untracked_def)

lemma while_char_untracked:
  "untracked (while_char line index char_index st) = untracked st"
proof (induction "length line - char_index" arbitrary: char_index st rule: less_induct)
  case less
  show ?case
    by (subst while_char.simps) (auto simp: less)
qed

lemma track_quotes_untracked:
  "untracked (track_quotes index line st) = untracked st"
  by (simp add: track_quotes_def while_char_untracked)

lemma scan_line_fields:
  "add_imports (scan_line config index line st) = add_imports st"
  "import_section (scan_line config index line st) = import_section st"
  "contains_imports (scan_line config index line st) = contains_imports st"
  "first_import_section (scan_line config index line st) = first_import_section st"
  "indent (scan_line config index line st) = indent st"
  "isort_off (scan_line config index line st) = isort_off st"
  "output_stream (scan_line config index line st) = output_stream st"
  "line_separator (scan_line config index line st)
     = (if line_separator st = [] then [last line] else line_separator st)"
  using track_quotes_untracked [of index line "track_top_comment config index line
          (st\<lparr>line_separator :=
                (if line_separator st = [] then [last line] else line_separator st)\<rparr>)"]
  by (simp_all add: scan_line_def untracked_def track_top_comment_def)

section \<open>Lines inside a literal or a suppressed region\<close>

text \<open>
  Claim C3. The code sets out to do what the claim says (\<open>not_imports = bool(in_quote)
  or in_top_comment or isort_off\<close>, and the injection of additions is guarded by
  \<open>not in_quote\<close> and \<open>not in_top_comment\<close>), and misses it in two places. The
  classifier reads the quote state only after the tracker has scanned the whole line,
  so the last line of a literal, the one that holds the closing delimiter, is classified
  by its text: below, \<open>import os\<close> in front of the closing triple quote is taken for an
  import statement and handed to the sort contract. And the guard of the injection does
  not look at \<open>isort_off\<close>: additions still pending in a suppressed region are injected
  there, and the line of the region at which that happens is handed to the sort contract
  with them. The sort contract of the examples brackets what it is handed.
\<close>

theorem literal_line_handed_to_sorter:
  "sort_imports plain_config marking_externals ''py''
     [[CHR ''x'', CHR '' '', CHR ''='', CHR '' '', squote, squote, squote, CHR 0x0A],
      ''import os'' @ [squote, squote, squote, CHR 0x0A]]
   = Some ([CHR ''x'', CHR '' '', CHR ''='', CHR '' '', squote, squote, squote, CHR 0x0A]
           @ ''<import os'' @ [squote, squote, squote, CHR 0x0A] @ ''>'')
   \<and> sort_imports adding_config marking_externals ''py''
     [[dquote, dquote, dquote, CHR ''a'', dquote, dquote, dquote, CHR 0x0A],
      [dquote, dquote, dquote, CHR ''b'', dquote, dquote, dquote, CHR 0x0A],
      ''# isort: off\<newline>'', ''import sys\<newline>'', ''# isort: on\<newline>'']
   = Some ([dquote, dquote, dquote, CHR ''a'', dquote, dquote, dquote, CHR 0x0A,
            dquote, dquote, dquote, CHR ''b'', dquote, dquote, dquote, CHR 0x0A]
           @ ''# isort: off\<newline><import os\<newline>import sys\<newline>># isort: on\<newline>'')"
  by code_simp

text \<open>
  What the classifier does ensure: a line after which a literal is still open, and a
  line that arrives in a suppressed region, is marked as non-import whatever its text;
  it is written unchanged when no section is buffered and, in the suppressed region,
  no additions are pending. A section is never buffered across such a line.
\<close>

lemma open_literal_or_suppressed_line:
  assumes "in_quote (scan_line config index line st) \<noteq> [] \<or> isort_off st"
  shows "(\<exists>st'. classify index line (scan_line config index line st) rest = Some (st', True, rest))
     \<and> (import_section st = []
          \<and> (in_quote (scan_line config index line st) \<noteq> [] \<or> add_imports st = [])
        \<longrightarrow> (\<exists>st'. loop_body config ext extension index line st rest = Some (st', rest)
                \<and> output_stream st' = output_stream st @ line))"
  using assms
  by (auto simp: classify_def loop_body_def flush_def inject_add_imports_def Let_def
      scan_line_fields)

lemma loop_body_closes_section:
  assumes "loop_body config ext extension index line st rest = Some (st', rest')"
      and "in_quote st' \<noteq> [] \<or> isort_off st'"
  shows "import_section st' = []"
  using assms
  by (auto simp: classify_def loop_body_def flush_def Let_def
      split: if_splits Option.bind_splits)

section \<open>Streams without import statements, and one section at the head of the file\<close>




























section \<open>Lines outside import sections\<close>




section \<open>Indented sections\<close>

text \<open>
  Claim C9, as stated, fails: the flush removes all leading whitespace of every line of
  the section, not the recorded indentation only, so a continuation line that is
  indented deeper loses its extra indentation as well. Here the recorded indentation
  is two spaces and the second line has six; the contract is handed that line with no
  leading space at all, so the output is not the one the claim describes.
\<close>

theorem deeper_indentation_removed_counterexample:
  "sort_imports plain_config marking_externals ''py''
     [''  from a import (\<newline>'', ''      b)\<newline>'', ''  x = 1\<newline>'']
     = Some ''  <from a import (\<newline>  b)\<newline>  >\<newline>  x = 1\<newline>''
   \<and> sort_imports plain_config marking_externals ''py''
     [''  from a import (\<newline>'', ''      b)\<newline>'', ''  x = 1\<newline>'']
     \<noteq> Some ''  <from a import (\<newline>      b)\<newline>  >\<newline>  x = 1\<newline>''"
  by code_simp

text \<open>
  Claim C9, amended. When a section with a recorded indentation and import statements
  is flushed, the section text is split at the line separator, every piece loses all
  its leading whitespace, the pieces are joined again and handed to the sort contract;
  the recorded indentation is then put in front of every line of the returned text
  that is not blank (\<open>textwrap.indent\<close>), one line separator is appended, and the
  line that triggered the flush is written separately after the block. The section and
  its indentation are reset.
\<close>

theorem indented_section_flush:
  assumes "import_section st \<noteq> []" "indent st \<noteq> []" "contains_imports st"
  shows "output_stream (flush config ext extension line st)
           = output_stream st
             @ textwrap_indent
                 (sorted_section ext config extension
                    (join (line_separator st)
                       (map lstrip
                          (split (import_section (strip_leading_separators st))
                             (line_separator st)))))
                 (indent st)
             @ line_separator st @ line
     \<and> (\<forall>l\<in>set (map lstrip (split (import_section (strip_leading_separators st))
                             (line_separator st))). l = [] \<or> \<not> is_space (hd l))
     \<and> indent (flush config ext extension line st) = []
     \<and> import_section (flush config ext extension line st) = []
     \<and> \<not> contains_imports (flush config ext extension line st)"
proof -
  have "l = [] \<or> \<not> is_space (hd l)" if "l \<in> set (map lstrip xs)" for l xs
    using that by (auto simp: lstrip_def hd_dropWhile)
  then show ?thesis
    using assms
    by (auto simp: flush_def inject_add_imports_def append_add_imports_def
        fold_line_def emit_section_def write_sorted_def dedent_def strip_leading_separators_def
        write_line_after_def)
qed

theorem indented_section_flush_witness:
  "output_stream (flush plain_config marking_externals ''py'' ''  x = 1\<newline>''
     ((initial_state plain_config marking_externals)
        \<lparr>line_separator := ''\<newline>'', import_section := ''  from a import (\<newline>      b)\<newline>'',
         contains_imports := True, indent := ''  ''\<rparr>))
   = ''  <from a import (\<newline>  b)\<newline>  >\<newline>  x = 1\<newline>''"
proof -
  have "join ''\<newline>'' (map lstrip (split (import_section (strip_leading_separators
          ((initial_state plain_config marking_externals)
            \<lparr>line_separator := ''\<newline>'', import_section := ''  from a import (\<newline>      b)\<newline>'',
             contains_imports := True, indent := ''  ''\<rparr>))) ''\<newline>''))
        = ''from a import (\<newline>b)\<newline>''"
    by code_simp
  moreover have "textwrap_indent ''<from a import (\<newline>b)\<newline>>'' ''  ''
        = ''  <from a import (\<newline>  b)\<newline>  >''"
    by code_simp
  ultimately show ?thesis
    using indented_section_flush
      [of "(initial_state plain_config marking_externals)
        \<lparr>line_separator := ''\<newline>'', import_section := ''  from a import (\<newline>      b)\<newline>'',
         contains_imports := True, indent := ''  ''\<rparr>"
        plain_config marking_externals "''py''" "''  x = 1\<newline>''"]
    by (simp add: initial_state_def marking_externals_def)
qed

section \<open>Sorting the output again\<close>





end
